theory Spec2Isabelle
  imports Main "HOL-Library.Word"
begin

section \<open>Data model of discovery.go\<close>

text \<open>
  \<^verbatim>\<open>peer.ID\<close> is a Go string and a multiaddress is kept as its text. \<^verbatim>\<open>NodeTypeSeq\<close> is an
  \<^verbatim>\<open>int64\<close>: a 64-bit word read as two's complement by \<open>sint\<close>, whose multiplication wraps.
  Go's \<^verbatim>\<open>int\<close> (the \<^verbatim>\<open>Count\<close> of a topology, \<^verbatim>\<open>containerCount\<close>) is only compared and
  counted, so it is an \<open>int\<close>.
\<close>

type_synonym peer_ID = string
type_synonym int64 = "64 word"

record AddrInfo =
  ID :: peer_ID
  Addrs :: "string list"

record PeerRegistration =
  Info :: AddrInfo
  NodeTypeSeq :: int64
  IsPublisher :: bool

record ConnectionsDef =
  Latency :: int
  Connections :: "string list"

text \<open>The errors and panics that the modelled functions can end in.\<close>

datatype ctx_error = Canceled | DeadlineExceeded

datatype error =
    PanicMakeslice
  | PanicIndexOutOfRange
  | PanicNilDereference
  | PanicIntn
  | PanicBadlyFormattedTopology
  | PanicZeroPeers
  | PublishError string
  | SubscribeError string
  | NotEnoughPeerInfos int nat
  | ContextErr ctx_error
  | RetryErrors "string list"

definition peer_id :: "PeerRegistration \<Rightarrow> peer_ID" where
  "peer_id p = ID (Info p)"

definition zero_PeerRegistration :: PeerRegistration where
  "zero_PeerRegistration =
     \<lparr>Info = \<lparr>ID = [], Addrs = []\<rparr>, NodeTypeSeq = 0, IsPublisher = False\<rparr>"

section \<open>Topologies\<close>

subsection \<open>RandomTopology\<close>

text \<open>
  \<^verbatim>\<open>rand.Perm(len(remote))\<close> is an input of the model: the list \<open>indices\<close>. The loop
  \<^verbatim>\<open>for i := 0; i < n; i++ { out[i] = remote[indices[i]] }\<close> reads both slices by index; an
  index out of range panics in Go, and so does \<^verbatim>\<open>make\<close> with a negative length.
\<close>

definition in_range :: "nat list \<Rightarrow> 'a list \<Rightarrow> nat \<Rightarrow> bool" where
  "in_range indices remote n =
     list_all (\<lambda>i. i < length indices \<and> indices ! i < length remote) [0..<n]"

definition RandomTopology_SelectPeers ::
  "int \<Rightarrow> nat list \<Rightarrow> peer_ID \<Rightarrow> PeerRegistration list \<Rightarrow> error + PeerRegistration list" where
  "RandomTopology_SelectPeers Count indices local remote =
     (if length remote = 0 \<or> Count = 0 then Inr []
      else
        let n = (if Count > int (length remote) then int (length remote) else Count) in
        if n < 0 then Inl PanicMakeslice
        else if \<not> in_range indices remote (nat n) then Inl PanicIndexOutOfRange
        else Inr (map (\<lambda>i. remote ! (indices ! i)) [0..<nat n]))"

definition RandomTopology_SelectNPeers ::
  "int \<Rightarrow> nat list \<Rightarrow> peer_ID \<Rightarrow> PeerRegistration list \<Rightarrow> error + PeerRegistration list" where
  "RandomTopology_SelectNPeers n0 indices local remote =
     (if length remote = 0 \<or> n0 = 0 then Inr []
      else
        let n = (if n0 > int (length remote) then int (length remote) else n0) in
        if n < 0 then Inl PanicMakeslice
        else if \<not> in_range indices remote (nat n) then Inl PanicIndexOutOfRange
        else Inr (map (\<lambda>i. remote ! (indices ! i)) [0..<nat n]))"

subsection \<open>RandomHonestTopology\<close>

definition RandomHonestTopology_SelectPeers ::
  "int \<Rightarrow> bool \<Rightarrow> nat list \<Rightarrow> peer_ID \<Rightarrow> PeerRegistration list
     \<Rightarrow> error + PeerRegistration list" where
  "RandomHonestTopology_SelectPeers Count PublishersOnly indices local remote =
     (if length remote = 0 then Inr []
      else RandomTopology_SelectPeers Count indices local
             (filter (\<lambda>p. \<not> PublishersOnly \<or> IsPublisher p) remote))"

subsection \<open>SinglePublisherTopology\<close>

text \<open>
  The loop of \<^verbatim>\<open>selectSinglePublisher\<close> carries \<^verbatim>\<open>lowest\<close> and \<^verbatim>\<open>lowestp\<close>;
  \<^verbatim>\<open>int64(p.NodeTypeSeq * 1000000)\<close> is a wrapping 64-bit product and both comparisons are
  signed.
\<close>

fun publisher_loop ::
  "PeerRegistration list \<Rightarrow> int64 \<times> PeerRegistration \<Rightarrow> int64 \<times> PeerRegistration" where
  "publisher_loop [] st = st"
| "publisher_loop (p # ps) (lowest, lowestp) =
     (if IsPublisher p then
        (let current = NodeTypeSeq p * 1000000 in
         if sint lowest < 0 \<or> sint current < sint lowest
         then publisher_loop ps (current, p)
         else publisher_loop ps (lowest, lowestp))
      else publisher_loop ps (lowest, lowestp))"

definition selectSinglePublisher :: "PeerRegistration list \<Rightarrow> PeerRegistration option" where
  "selectSinglePublisher peers =
     (case publisher_loop peers (- 1, zero_PeerRegistration) of
        (lowest, lowestp) \<Rightarrow> if lowest = - 1 then None else Some lowestp)"

definition SinglePublisherTopology_SelectPeers ::
  "peer_ID \<Rightarrow> PeerRegistration list \<Rightarrow> PeerRegistration list" where
  "SinglePublisherTopology_SelectPeers local remote =
     (case selectSinglePublisher remote of
        Some publisher \<Rightarrow> [publisher]
      | None \<Rightarrow> [])"

subsection \<open>FixedTopology\<close>

text \<open>
  \<^verbatim>\<open>strings.Split(conn, "-")\<close> cuts at every dash and returns one field more than there are
  dashes (the empty string gives one empty field). \<^verbatim>\<open>strconv.Itoa\<close> writes a signed decimal.
\<close>

fun split_dash :: "string \<Rightarrow> string list" where
  "split_dash [] = [[]]"
| "split_dash (c # cs) =
     (if c = CHR ''-'' then [] # split_dash cs
      else (case split_dash cs of
              [] \<Rightarrow> [[c]]
            | f # fs \<Rightarrow> (c # f) # fs))"

definition digit_char :: "nat \<Rightarrow> char" where
  "digit_char d = ''0123456789'' ! d"

fun digits :: "nat \<Rightarrow> string" where
  "digits n = (if n < 10 then [digit_char n] else digits (n div 10) @ [digit_char (n mod 10)])"

declare digits.simps [simp del]

definition Itoa :: "int \<Rightarrow> string" where
  "Itoa i = (if i < 0 then CHR ''-'' # digits (nat (- i)) else digits (nat i))"

fun fixed_loop ::
  "string list \<Rightarrow> PeerRegistration list \<Rightarrow> PeerRegistration list
     \<Rightarrow> error + PeerRegistration list" where
  "fixed_loop [] remote out = Inr out"
| "fixed_loop (conn # conns) remote out =
     (let parts = split_dash conn in
      if length parts \<noteq> 3 then Inl PanicBadlyFormattedTopology
      else
        let nodeTypeSeq = parts ! 0 in
        fixed_loop conns remote
          (out @ filter (\<lambda>p. nodeTypeSeq = Itoa (sint (NodeTypeSeq p))) remote))"

text \<open>The field \<^verbatim>\<open>def\<close> is a pointer, read only after the test for an empty \<open>remote\<close>.\<close>

definition FixedTopology_SelectPeers ::
  "ConnectionsDef option \<Rightarrow> peer_ID \<Rightarrow> PeerRegistration list
     \<Rightarrow> error + PeerRegistration list" where
  "FixedTopology_SelectPeers def local remote =
     (if length remote = 0 then Inr []
      else (case def of
              None \<Rightarrow> Inl PanicNilDereference
            | Some d \<Rightarrow> fixed_loop (Connections d) remote []))"


text \<open>
  The four types with a \<^verbatim>\<open>SelectPeers\<close> method, and the call of the method through the
  \<^verbatim>\<open>Topology\<close> interface. \<open>indices\<close> is what \<^verbatim>\<open>rand.Perm\<close> returns in the call, where there is
  one.
\<close>

datatype Topology =
    RandomTopology int
  | RandomHonestTopology int bool
  | SinglePublisherTopology
  | FixedTopology "ConnectionsDef option"

fun SelectPeers ::
  "Topology \<Rightarrow> nat list \<Rightarrow> peer_ID \<Rightarrow> PeerRegistration list \<Rightarrow> error + PeerRegistration list" where
  "SelectPeers (RandomTopology Count) indices local remote =
     RandomTopology_SelectPeers Count indices local remote"
| "SelectPeers (RandomHonestTopology Count PublishersOnly) indices local remote =
     RandomHonestTopology_SelectPeers Count PublishersOnly indices local remote"
| "SelectPeers SinglePublisherTopology indices local remote =
     Inr (SinglePublisherTopology_SelectPeers local remote)"
| "SelectPeers (FixedTopology def) indices local remote =
     FixedTopology_SelectPeers def local remote"

section \<open>PeerSubscriber\<close>

text \<open>
  \<open>peers\<close> is \<open>None\<close> for the nil slice. \<open>subscribe_calls\<close> counts the calls of
  \<^verbatim>\<open>client.Subscribe\<close> made through this subscriber. The mutex \<^verbatim>\<open>lk\<close> is held for the whole
  of \<^verbatim>\<open>waitForPeers\<close>, so calls from several goroutines run one after the other: a call is
  one step on this state.
\<close>

record PeerSubscriber =
  peers :: "PeerRegistration list option"
  containerCount :: int
  subscribe_calls :: nat

definition NewPeerSubscriber :: "int \<Rightarrow> PeerSubscriber" where
  "NewPeerSubscriber cc = \<lparr>peers = None, containerCount = cc, subscribe_calls = 0\<rparr>"

text \<open>
  What the sync service and the context do during one call: the result of
  \<^verbatim>\<open>client.Publish\<close> and of \<^verbatim>\<open>client.Subscribe\<close> (\<open>None\<close> for a nil error), and the order in
  which the \<^verbatim>\<open>select\<close> of the collection loop finds its cases ready.
\<close>

datatype chan_event = Recv PeerRegistration | ChanClosed | CtxDone ctx_error

record sync_env =
  publish_result :: "string option"
  subscribe_result :: "string option"
  events :: "chan_event list"

definition register :: "sync_env \<Rightarrow> PeerRegistration \<Rightarrow> error option" where
  "register env entry =
     (case publish_result env of
        Some err \<Rightarrow> Some (PublishError err)
      | None \<Rightarrow> None)"

text \<open>
  The loop \<^verbatim>\<open>for i := 0; i < ps.containerCount; i++ { select ... }\<close>. With no event left the
  \<^verbatim>\<open>select\<close> never fires and the call does not return: \<open>None\<close>. Otherwise the result is
  the content of \<^verbatim>\<open>ps.peers\<close> when the loop is left and the error it is left with.
\<close>

fun wait_loop ::
  "int \<Rightarrow> int \<Rightarrow> PeerRegistration list \<Rightarrow> chan_event list
     \<Rightarrow> (PeerRegistration list \<times> error option) option" where
  "wait_loop cc i ps [] = (if i < cc then None else Some (ps, None))"
| "wait_loop cc i ps (ev # evs) =
     (if i < cc then
        (case ev of
           Recv ai \<Rightarrow> wait_loop cc (i + 1) (ps @ [ai]) evs
         | ChanClosed \<Rightarrow> Some (ps, Some (NotEnoughPeerInfos cc (length ps)))
         | CtxDone e \<Rightarrow> Some (ps, Some (ContextErr e)))
      else Some (ps, None))"

text \<open>
  \<^verbatim>\<open>make\<close> with a negative capacity panics before \<^verbatim>\<open>ps.peers\<close> is assigned;
  \<^verbatim>\<open>rand.Intn(0)\<close> panics after it.
\<close>

definition waitForPeers ::
  "sync_env \<Rightarrow> PeerSubscriber
     \<Rightarrow> ((error + PeerRegistration list) \<times> PeerSubscriber) option" where
  "waitForPeers env ps =
     (case peers ps of
        Some cached \<Rightarrow> Some (Inr cached, ps)
      | None \<Rightarrow>
          if containerCount ps < 0 then Some (Inl PanicMakeslice, ps)
          else
            let ps1 = ps\<lparr>peers := Some []\<rparr> in
            if containerCount ps \<le> 0 then Some (Inl PanicIntn, ps1)
            else
              let ps2 = ps1\<lparr>subscribe_calls := subscribe_calls ps1 + 1\<rparr> in
              (case subscribe_result env of
                 Some err \<Rightarrow> Some (Inl (SubscribeError err), ps2)
               | None \<Rightarrow>
                   (case wait_loop (containerCount ps) 0 [] (events env) of
                      None \<Rightarrow> None
                    | Some (got, Some err) \<Rightarrow> Some (Inl err, ps2\<lparr>peers := Some got\<rparr>)
                    | Some (got, None) \<Rightarrow> Some (Inr got, ps2\<lparr>peers := Some got\<rparr>))))"

section \<open>SyncDiscovery\<close>

record host =
  host_ID :: peer_ID
  host_Addrs :: "string list"
  network_is_Swarm :: bool

text \<open>
  \<open>connected\<close> is the map of the same name. \<open>dispatched\<close> lists, in order, the peers for
  which \<^verbatim>\<open>errgrp.Go\<close> has started a connection attempt.
\<close>

record SyncDiscovery =
  h :: host
  peerSubscriber :: PeerSubscriber
  topology :: Topology
  nodeTypeSeq :: int64
  isPublisher :: bool
  allPeers :: "PeerRegistration list"
  connected :: "peer_ID \<rightharpoonup> PeerRegistration"
  dispatched :: "PeerRegistration list"

definition NewSyncDiscovery ::
  "host \<Rightarrow> int64 \<Rightarrow> PeerSubscriber \<Rightarrow> Topology \<Rightarrow> SyncDiscovery" where
  "NewSyncDiscovery h0 seq ps t =
     \<lparr>h = h0, peerSubscriber = ps, topology = t, nodeTypeSeq = seq, isPublisher = False,
      allPeers = [], connected = Map.empty, dispatched = []\<rparr>"

definition InfoFromHost :: "host \<Rightarrow> AddrInfo" where
  "InfoFromHost h0 = \<lparr>ID = host_ID h0, Addrs = host_Addrs h0\<rparr>"

text \<open>
  \<^verbatim>\<open>registerAndWait\<close> returns an error (\<open>None\<close> for nil) and leaves the discovery changed;
  the outer \<open>None\<close> is the call that never returns. The capacity \<^verbatim>\<open>len(peers)-1\<close> of the
  new slice is negative for an empty \<open>peers\<close>, where \<^verbatim>\<open>make\<close> panics.
\<close>

definition registerAndWait ::
  "sync_env \<Rightarrow> SyncDiscovery \<Rightarrow> (error option \<times> SyncDiscovery) option" where
  "registerAndWait env s =
     (let localPeer = InfoFromHost (h s);
          entry = \<lparr>Info = localPeer, NodeTypeSeq = nodeTypeSeq s, IsPublisher = isPublisher s\<rparr>
      in case register env entry of
           Some err \<Rightarrow> Some (Some err, s)
         | None \<Rightarrow>
             (case waitForPeers env (peerSubscriber s) of
                None \<Rightarrow> None
              | Some (Inl err, ps') \<Rightarrow> Some (Some err, s\<lparr>peerSubscriber := ps'\<rparr>)
              | Some (Inr received, ps') \<Rightarrow>
                  if int (length received) - 1 < 0
                  then Some (Some PanicMakeslice, s\<lparr>peerSubscriber := ps'\<rparr>)
                  else Some (None,
                         s\<lparr>peerSubscriber := ps',
                           allPeers := filter (\<lambda>p. ID (Info p) \<noteq> ID localPeer) received\<rparr>)))"

subsection \<open>Dispatching connection attempts\<close>

text \<open>
  The loop over \<open>selected\<close> runs with \<^verbatim>\<open>connectedLk\<close> held: the test for membership, the
  insertion and the call of \<^verbatim>\<open>errgrp.Go\<close> are one step. The attempts themselves run in
  goroutines of their own (\<open>connectWithRetry\<close> below); what \<^verbatim>\<open>errgrp.Wait()\<close> returns depends
  on how they interleave and is left out: the model of a call returns the discovery as the
  loop leaves it, or the error or panic that ends the call before the loop.
\<close>

fun connect_loop :: "PeerRegistration list \<Rightarrow> SyncDiscovery \<Rightarrow> SyncDiscovery" where
  "connect_loop [] s = s"
| "connect_loop (p # ps) s =
     (if connected s (ID (Info p)) = None
      then connect_loop ps
             (s\<lparr>connected := (connected s)(ID (Info p) \<mapsto> p), dispatched := dispatched s @ [p]\<rparr>)
      else connect_loop ps s)"

text \<open>
  \<open>ctx_done\<close> is the error of the context when the first \<^verbatim>\<open>select\<close> takes
  \<^verbatim>\<open>ctx.Done()\<close>, and \<open>None\<close> when it takes the timer.
\<close>

definition ConnectTopology ::
  "ctx_error option \<Rightarrow> nat list \<Rightarrow> SyncDiscovery \<Rightarrow> error + SyncDiscovery" where
  "ConnectTopology ctx_done indices s =
     (case ctx_done of
        Some e \<Rightarrow> Inl (ContextErr e)
      | None \<Rightarrow>
          (case SelectPeers (topology s) indices (host_ID (h s)) (allPeers s) of
             Inl e \<Rightarrow> Inl e
           | Inr selected \<Rightarrow>
               if length selected = 0 then Inl PanicZeroPeers
               else Inr (connect_loop selected s)))"

definition ConnectingToPeers :: "PeerRegistration list \<Rightarrow> SyncDiscovery \<Rightarrow> error + SyncDiscovery" where
  "ConnectingToPeers selected s =
     (if length selected = 0 then Inl PanicZeroPeers
      else Inr (connect_loop selected s))"

text \<open>
  A sequence of calls on one discovery. A call that ends in an error before its loop has
  changed nothing.
\<close>

datatype call =
    CallConnectTopology "ctx_error option" "nat list"
  | CallConnectingToPeers "PeerRegistration list"

fun run_call :: "call \<Rightarrow> SyncDiscovery \<Rightarrow> error + SyncDiscovery" where
  "run_call (CallConnectTopology ctx_done indices) s = ConnectTopology ctx_done indices s"
| "run_call (CallConnectingToPeers selected) s = ConnectingToPeers selected s"

fun run_calls :: "call list \<Rightarrow> SyncDiscovery \<Rightarrow> SyncDiscovery" where
  "run_calls [] s = s"
| "run_calls (c # cs) s =
     (case run_call c s of
        Inl e \<Rightarrow> run_calls cs s
      | Inr s' \<Rightarrow> run_calls cs s')"


subsection \<open>connectWithRetry\<close>









section \<open>Predicates and inputs used in the statements\<close>

text \<open>A registration with no addresses, to write concrete inputs.\<close>

definition mk_peer :: "peer_ID \<Rightarrow> int64 \<Rightarrow> bool \<Rightarrow> PeerRegistration" where
  "mk_peer i seq pub = \<lparr>Info = \<lparr>ID = i, Addrs = []\<rparr>, NodeTypeSeq = seq, IsPublisher = pub\<rparr>"


text \<open>The contract of \<^verbatim>\<open>rand.Perm(n)\<close>: the numbers below \<open>n\<close>, each once.\<close>

definition is_perm :: "nat list \<Rightarrow> nat \<Rightarrow> bool" where
  "is_perm indices n = (length indices = n \<and> distinct indices \<and> list_all (\<lambda>i. i < n) indices)"

text \<open>
  A sequence number that is not negative and whose product with 1000000 fits in an
  \<^verbatim>\<open>int64\<close>: the largest is 9223372036854.
\<close>

definition seq_ok :: "PeerRegistration \<Rightarrow> bool" where
  "seq_ok p = (0 \<le> sint (NodeTypeSeq p) \<and> sint (NodeTypeSeq p) \<le> 9223372036854)"


section \<open>Properties of the topologies\<close>

subsection \<open>FixedTopology\<close>

lemma fixed_loop_well_formed:
  "\<forall>conn \<in> set conns. length (split_dash conn) = 3 \<Longrightarrow>
   fixed_loop conns remote out =
     Inr (out @ concat (map (\<lambda>conn. filter (\<lambda>p. split_dash conn ! 0 = Itoa (sint (NodeTypeSeq p))) remote)
                   conns))"
  by (induction conns arbitrary: out) (auto simp: Let_def)

lemma fixed_loop_malformed:
  "\<exists>conn \<in> set conns. length (split_dash conn) \<noteq> 3 \<Longrightarrow>
   fixed_loop conns remote out = Inl PanicBadlyFormattedTopology"
  by (induction conns arbitrary: out) (auto simp: Let_def)

lemma FixedTopology_spec_example:
  "FixedTopology_SelectPeers (Some \<lparr>Latency = 0, Connections = [''5-x-y'']\<rparr>) ''me''
     [mk_peer ''a'' 5 False, mk_peer ''b'' 7 False] = Inr [mk_peer ''a'' 5 False]"
  by (simp add: FixedTopology_SelectPeers_def mk_peer_def Itoa_def digits.simps digit_char_def)

text \<open>
  C10: on an empty remote list \<^verbatim>\<open>FixedTopology.SelectPeers\<close> returns the empty subset
  whatever the connection specifiers are (well formed or not, and even with no definition
  at all): no specifier is looked at. The panic for a badly formatted specifier is
  therefore raised on a non-empty remote list only.
\<close>

theorem FixedTopology_SelectPeers_empty_remote:
  "FixedTopology_SelectPeers def local [] = Inr []
   \<and> (FixedTopology_SelectPeers def local remote = Inl PanicBadlyFormattedTopology
        \<longrightarrow> remote \<noteq> [])"
  by (auto simp: FixedTopology_SelectPeers_def)

theorem FixedTopology_SelectPeers_empty_remote_witness:
  "FixedTopology_SelectPeers (Some \<lparr>Latency = 0, Connections = [''5-x'', ''7-a-b'']\<rparr>) ''me'' []
     = Inr []
   \<and> FixedTopology_SelectPeers (Some \<lparr>Latency = 0, Connections = [''5-x'', ''7-a-b'']\<rparr>) ''me''
        [mk_peer ''a'' 5 False] = Inl PanicBadlyFormattedTopology
   \<and> [mk_peer ''a'' 5 False] \<noteq> []"
  using FixedTopology_SelectPeers_empty_remote
          [of "Some \<lparr>Latency = 0, Connections = [''5-x'', ''7-a-b'']\<rparr>" "''me''"
              "[mk_peer ''a'' 5 False]"]
  by (simp add: FixedTopology_SelectPeers_def)

text \<open>
  C7, as the code has it: on a non-empty remote list, \<^verbatim>\<open>FixedTopology.SelectPeers\<close> panics as
  soon as one specifier does not split into exactly three fields at its dashes, and
  otherwise returns, specifier by specifier, every remote peer whose sequence number
  written in decimal is the first field of the specifier. (On an empty remote list no
  specifier is validated: the counterexample below.)
\<close>

theorem FixedTopology_SelectPeers_nonempty_remote:
  assumes "remote \<noteq> []"
  shows "FixedTopology_SelectPeers (Some d) local remote =
     (if \<forall>conn \<in> set (Connections d). length (split_dash conn) = 3
      then Inr (concat (map (\<lambda>conn. filter (\<lambda>p. split_dash conn ! 0 = Itoa (sint (NodeTypeSeq p))) remote)
                  (Connections d)))
      else Inl PanicBadlyFormattedTopology)"
proof (cases "\<forall>conn \<in> set (Connections d). length (split_dash conn) = 3")
  case True
  then show ?thesis
    using assms fixed_loop_well_formed [OF True, of remote "[]"]
    by (simp add: FixedTopology_SelectPeers_def)
next
  case False
  then have "\<exists>conn \<in> set (Connections d). length (split_dash conn) \<noteq> 3" by blast
  from fixed_loop_malformed [OF this, of remote "[]"] False assms show ?thesis
    by (simp add: FixedTopology_SelectPeers_def)
qed

theorem FixedTopology_SelectPeers_nonempty_remote_witness:
  "FixedTopology_SelectPeers (Some \<lparr>Latency = 0, Connections = [''5-x-y'', ''7-u-v'', ''5-z-w'']\<rparr>)
     ''me'' [mk_peer ''a'' 5 False, mk_peer ''b'' 7 False, mk_peer ''c'' 9 False]
     = Inr [mk_peer ''a'' 5 False, mk_peer ''b'' 7 False, mk_peer ''a'' 5 False]
   \<and> FixedTopology_SelectPeers (Some \<lparr>Latency = 0, Connections = [''5-x-y'', ''5-x'']\<rparr>) ''me''
     [mk_peer ''a'' 5 False, mk_peer ''b'' 7 False] = Inl PanicBadlyFormattedTopology"
  using FixedTopology_SelectPeers_nonempty_remote
          [of "[mk_peer ''a'' 5 False, mk_peer ''b'' 7 False, mk_peer ''c'' 9 False]"
              "\<lparr>Latency = 0, Connections = [''5-x-y'', ''7-u-v'', ''5-z-w'']\<rparr>" "''me''"]
        FixedTopology_SelectPeers_nonempty_remote
          [of "[mk_peer ''a'' 5 False, mk_peer ''b'' 7 False]"
              "\<lparr>Latency = 0, Connections = [''5-x-y'', ''5-x'']\<rparr>" "''me''"]
  by (simp add: mk_peer_def Itoa_def digits.simps digit_char_def)

text \<open>
  The claim C7 as stated, for every remote list, fails on the empty one: the specifier
  \<open>''5-x''\<close> has two fields and the call returns the empty subset, not an error.
\<close>

theorem FixedTopology_SelectPeers_malformed_counterexample:
  "length (split_dash ''5-x'') \<noteq> 3
   \<and> FixedTopology_SelectPeers (Some \<lparr>Latency = 0, Connections = [''5-x'']\<rparr>) ''me'' [] = Inr []"
  by (simp add: FixedTopology_SelectPeers_def)


subsection \<open>SinglePublisherTopology\<close>

lemma scaled_seq_ok:
  "seq_ok p \<Longrightarrow> sint (NodeTypeSeq p * 1000000) = sint (NodeTypeSeq p) * 1000000"
  unfolding seq_ok_def
  by (simp add: sint_word_ariths signed_take_bit_int_eq_self)

lemma publisher_loop_keep:
  "0 \<le> sint lowest \<Longrightarrow>
   \<forall>q \<in> set ys. IsPublisher q \<longrightarrow> sint lowest \<le> sint (NodeTypeSeq q * 1000000) \<Longrightarrow>
   publisher_loop ys (lowest, lowestp) = (lowest, lowestp)"
  by (induction ys) (auto simp: Let_def)

lemma publisher_loop_take:
  "IsPublisher p \<Longrightarrow>
   sint lowest < 0 \<or> sint (NodeTypeSeq p * 1000000) < sint lowest \<Longrightarrow>
   \<forall>q \<in> set xs. IsPublisher q \<longrightarrow>
      0 \<le> sint (NodeTypeSeq q * 1000000) \<and>
      sint (NodeTypeSeq p * 1000000) < sint (NodeTypeSeq q * 1000000) \<Longrightarrow>
   publisher_loop (xs @ p # ys) (lowest, lowestp) = publisher_loop ys (NodeTypeSeq p * 1000000, p)"
  by (induction xs arbitrary: lowest lowestp) (auto simp: Let_def)

lemma publisher_loop_no_publisher:
  "\<forall>q \<in> set xs. \<not> IsPublisher q \<Longrightarrow> publisher_loop xs st = st"
  by (induction xs arbitrary: st) (auto simp: Let_def split: prod.splits)

lemma selectSinglePublisher_first_lowest:
  assumes ok: "\<forall>q \<in> set (xs @ p # ys). IsPublisher q \<longrightarrow> seq_ok q"
    and p: "IsPublisher p"
    and before: "\<forall>q \<in> set xs. IsPublisher q \<longrightarrow> sint (NodeTypeSeq p) < sint (NodeTypeSeq q)"
    and after: "\<forall>q \<in> set ys. IsPublisher q \<longrightarrow> sint (NodeTypeSeq p) \<le> sint (NodeTypeSeq q)"
  shows "selectSinglePublisher (xs @ p # ys) = Some p"
proof -
  have okp: "seq_ok p" using ok p by simp
  have sp: "sint (NodeTypeSeq p * 1000000) = sint (NodeTypeSeq p) * 1000000"
    using okp by (rule scaled_seq_ok)
  have nonneg: "0 \<le> sint (NodeTypeSeq p * 1000000)"
    using okp sp by (simp add: seq_ok_def)
  have b: "\<forall>q \<in> set xs. IsPublisher q \<longrightarrow>
      0 \<le> sint (NodeTypeSeq q * 1000000) \<and>
      sint (NodeTypeSeq p * 1000000) < sint (NodeTypeSeq q * 1000000)"
    using ok before sp by (auto simp: scaled_seq_ok seq_ok_def)
  have a: "\<forall>q \<in> set ys. IsPublisher q \<longrightarrow>
      sint (NodeTypeSeq p * 1000000) \<le> sint (NodeTypeSeq q * 1000000)"
    using ok after sp by (auto simp: scaled_seq_ok)
  have "publisher_loop (xs @ p # ys) (- 1, zero_PeerRegistration)
          = publisher_loop ys (NodeTypeSeq p * 1000000, p)"
    by (rule publisher_loop_take [OF p _ b]) simp
  also have "\<dots> = (NodeTypeSeq p * 1000000, p)"
    by (rule publisher_loop_keep [OF nonneg a])
  finally have r: "publisher_loop (xs @ p # ys) (- 1, zero_PeerRegistration)
                     = (NodeTypeSeq p * 1000000, p)" .
  have "NodeTypeSeq p * 1000000 \<noteq> - 1"
    using nonneg by auto
  with r show ?thesis by (simp add: selectSinglePublisher_def)
qed

text \<open>
  Every list with a publisher splits at its first publisher of lowest sequence number, so
  the second half of the theorem below speaks of every such list.
\<close>

lemma first_lowest_exists:
  fixes f :: "'a \<Rightarrow> int"
  shows "\<exists>q \<in> set zs. P q \<Longrightarrow>
   \<exists>xs p ys. zs = xs @ p # ys \<and> P p
      \<and> (\<forall>q \<in> set xs. P q \<longrightarrow> f p < f q) \<and> (\<forall>q \<in> set ys. P q \<longrightarrow> f p \<le> f q)"
proof (induction zs)
  case Nil
  then show ?case by simp
next
  case (Cons a zs)
  show ?case
  proof (cases "\<exists>q \<in> set zs. P q")
    case False
    with Cons.prems have "P a" by auto
    with False have "a # zs = [] @ a # zs \<and> P a
        \<and> (\<forall>q \<in> set []. P q \<longrightarrow> f a < f q) \<and> (\<forall>q \<in> set zs. P q \<longrightarrow> f a \<le> f q)"
      by auto
    then show ?thesis by blast
  next
    case True
    from Cons.IH [OF True] obtain xs p ys where
      d: "zs = xs @ p # ys" "P p" "\<forall>q \<in> set xs. P q \<longrightarrow> f p < f q"
         "\<forall>q \<in> set ys. P q \<longrightarrow> f p \<le> f q"
      by blast
    show ?thesis
    proof (cases "P a \<and> f a \<le> f p")
      case True
      with d have "a # zs = [] @ a # zs \<and> P a
          \<and> (\<forall>q \<in> set []. P q \<longrightarrow> f a < f q) \<and> (\<forall>q \<in> set zs. P q \<longrightarrow> f a \<le> f q)"
        by (auto; force)
      then show ?thesis by blast
    next
      case False
      with d have "a # zs = (a # xs) @ p # ys \<and> P p
          \<and> (\<forall>q \<in> set (a # xs). P q \<longrightarrow> f p < f q) \<and> (\<forall>q \<in> set ys. P q \<longrightarrow> f p \<le> f q)"
        by auto
      then show ?thesis by blast
    qed
  qed
qed

lemma SinglePublisherTopology_spec_example:
  "SinglePublisherTopology_SelectPeers ''me''
     [mk_peer ''a'' 3 True, mk_peer ''b'' 1 True, mk_peer ''c'' 2 False] = [mk_peer ''b'' 1 True]"
  by (simp add: SinglePublisherTopology_SelectPeers_def selectSinglePublisher_def mk_peer_def)

text \<open>
  C6, as the code has it: \<^verbatim>\<open>SinglePublisherTopology.SelectPeers\<close> returns the empty subset when
  no remote peer is a publisher. When the sequence numbers of the publishers are not
  negative and at most 9223372036854, it returns exactly the publisher \<open>p\<close> of lowest
  sequence number, the first one in the list on a tie: every publisher before \<open>p\<close> has a
  greater sequence number, and no publisher after \<open>p\<close> has a smaller one.
\<close>

theorem SinglePublisherTopology_SelectPeers_first_lowest:
  "((\<forall>q \<in> set remote. \<not> IsPublisher q) \<longrightarrow>
      SinglePublisherTopology_SelectPeers local remote = [])
   \<and> ((\<forall>q \<in> set (xs @ p # ys). IsPublisher q \<longrightarrow> seq_ok q) \<and> IsPublisher p
        \<and> (\<forall>q \<in> set xs. IsPublisher q \<longrightarrow> sint (NodeTypeSeq p) < sint (NodeTypeSeq q))
        \<and> (\<forall>q \<in> set ys. IsPublisher q \<longrightarrow> sint (NodeTypeSeq p) \<le> sint (NodeTypeSeq q))
      \<longrightarrow> SinglePublisherTopology_SelectPeers local (xs @ p # ys) = [p])"
proof (intro conjI impI)
  assume "\<forall>q \<in> set remote. \<not> IsPublisher q"
  then have "publisher_loop remote (- 1, zero_PeerRegistration) = (- 1, zero_PeerRegistration)"
    by (rule publisher_loop_no_publisher)
  then show "SinglePublisherTopology_SelectPeers local remote = []"
    by (simp add: SinglePublisherTopology_SelectPeers_def selectSinglePublisher_def)
next
  assume "(\<forall>q \<in> set (xs @ p # ys). IsPublisher q \<longrightarrow> seq_ok q) \<and> IsPublisher p
        \<and> (\<forall>q \<in> set xs. IsPublisher q \<longrightarrow> sint (NodeTypeSeq p) < sint (NodeTypeSeq q))
        \<and> (\<forall>q \<in> set ys. IsPublisher q \<longrightarrow> sint (NodeTypeSeq p) \<le> sint (NodeTypeSeq q))"
  then have "selectSinglePublisher (xs @ p # ys) = Some p"
    by (intro selectSinglePublisher_first_lowest) blast+
  then show "SinglePublisherTopology_SelectPeers local (xs @ p # ys) = [p]"
    by (simp add: SinglePublisherTopology_SelectPeers_def)
qed

theorem SinglePublisherTopology_SelectPeers_first_lowest_witness:
  "SinglePublisherTopology_SelectPeers ''me'' [mk_peer ''c'' 2 False] = []
   \<and> SinglePublisherTopology_SelectPeers ''me''
        [mk_peer ''a'' 3 True, mk_peer ''b'' 1 True, mk_peer ''c'' 2 False, mk_peer ''d'' 1 True]
      = [mk_peer ''b'' 1 True]"
  using SinglePublisherTopology_SelectPeers_first_lowest
          [of "[mk_peer ''c'' 2 False]" "''me''" "[mk_peer ''a'' 3 True]" "mk_peer ''b'' 1 True"
              "[mk_peer ''c'' 2 False, mk_peer ''d'' 1 True]"]
  by (simp add: mk_peer_def seq_ok_def)

text \<open>
  The claim C6 as stated, for every remote list, fails on a negative sequence number: the
  test \<^verbatim>\<open>lowest < 0\<close> takes the product \<open>-1000000\<close> for the initial \<open>-1\<close>, and the second
  publisher replaces the first although its sequence number is greater.
\<close>

theorem SinglePublisherTopology_SelectPeers_negative_counterexample:
  "SinglePublisherTopology_SelectPeers ''me'' [mk_peer ''a'' (- 1) True, mk_peer ''b'' 5 True]
     = [mk_peer ''b'' 5 True]
   \<and> sint (NodeTypeSeq (mk_peer ''a'' (- 1) True)) < sint (NodeTypeSeq (mk_peer ''b'' 5 True))"
  by (simp add: SinglePublisherTopology_SelectPeers_def selectSinglePublisher_def mk_peer_def)

subsection \<open>RandomTopology\<close>

lemma in_range_perm:
  assumes "is_perm indices (length remote)" "n \<le> length remote"
  shows "in_range indices remote n"
  using assms by (auto simp: in_range_def is_perm_def list_all_iff)

lemma RandomTopology_SelectPeers_negative:
  "Count < 0 \<Longrightarrow> remote \<noteq> [] \<Longrightarrow>
   RandomTopology_SelectPeers Count indices local remote = Inl PanicMakeslice"
  by (simp add: RandomTopology_SelectPeers_def)

lemma RandomTopology_SelectPeers_sound:
  assumes "0 \<le> Count" "is_perm indices (length remote)" "distinct remote"
    "local \<notin> peer_id ` set remote"
  shows "\<exists>out. RandomTopology_SelectPeers Count indices local remote = Inr out
          \<and> int (length out) = min Count (int (length remote))
          \<and> set out \<subseteq> set remote \<and> distinct out \<and> local \<notin> peer_id ` set out"
proof (cases "length remote = 0 \<or> Count = 0")
  case True
  with assms(1) show ?thesis by (auto simp: RandomTopology_SelectPeers_def)
next
  case False
  define n where "n = nat (if Count > int (length remote) then int (length remote) else Count)"
  have n_le: "n \<le> length remote" using assms(1) by (auto simp: n_def)
  have n_min: "int n = min Count (int (length remote))" using assms(1) by (auto simp: n_def)
  have len: "length indices = length remote" using assms(2) by (simp add: is_perm_def)
  have lt: "\<And>i. i < n \<Longrightarrow> indices ! i < length remote"
    using assms(2) n_le len by (auto simp: is_perm_def list_all_iff)
  define out where "out = map (\<lambda>i. remote ! (indices ! i)) [0..<n]"
  have r: "RandomTopology_SelectPeers Count indices local remote = Inr out"
    using False assms(1) in_range_perm [OF assms(2) n_le]
    by (simp add: RandomTopology_SelectPeers_def out_def n_def Let_def)
  have sub: "set out \<subseteq> set remote"
    using lt by (auto simp: out_def)
  have "inj_on (\<lambda>i. remote ! (indices ! i)) (set [0..<n])"
  proof (rule inj_onI)
    fix i j assume i: "i \<in> set [0..<n]" and j: "j \<in> set [0..<n]"
      and e: "remote ! (indices ! i) = remote ! (indices ! j)"
    from i j have i': "i < n" and j': "j < n" by auto
    from e lt [OF i'] lt [OF j'] assms(3) have "indices ! i = indices ! j"
      by (simp add: nth_eq_iff_index_eq)
    moreover have "distinct indices" using assms(2) by (simp add: is_perm_def)
    ultimately show "i = j"
      using i' j' n_le len by (simp add: nth_eq_iff_index_eq)
  qed
  then have d: "distinct out"
    by (simp add: out_def distinct_map)
  have "local \<notin> peer_id ` set out" using sub assms(4) by blast
  with r sub d n_min show ?thesis by (auto simp: out_def)
qed

text \<open>
  C5, as the code has it: \<^verbatim>\<open>RandomTopology.SelectPeers\<close> returns the empty subset, and no
  error, when the count is 0 or the remote list is empty. For a count that is not negative,
  a remote list without repeated records that does not hold the local node, and
  \<open>indices\<close> a permutation as \<^verbatim>\<open>rand.Perm\<close> returns one, it returns exactly
  \<open>min count |remote|\<close> peers, all of them from the remote list, no two the same and none
  the local node.
\<close>

theorem RandomTopology_SelectPeers_subset:
  "RandomTopology_SelectPeers 0 indices local remote = Inr []
   \<and> RandomTopology_SelectPeers Count indices local [] = Inr []
   \<and> (0 \<le> Count \<and> is_perm indices (length remote) \<and> distinct remote
        \<and> local \<notin> peer_id ` set remote
      \<longrightarrow> (\<exists>out. RandomTopology_SelectPeers Count indices local remote = Inr out
            \<and> int (length out) = min Count (int (length remote))
            \<and> set out \<subseteq> set remote \<and> distinct out \<and> local \<notin> peer_id ` set out))"
proof (intro conjI impI)
  show "RandomTopology_SelectPeers 0 indices local remote = Inr []"
    by (simp add: RandomTopology_SelectPeers_def)
  show "RandomTopology_SelectPeers Count indices local [] = Inr []"
    by (simp add: RandomTopology_SelectPeers_def)
next
  assume "0 \<le> Count \<and> is_perm indices (length remote) \<and> distinct remote
        \<and> local \<notin> peer_id ` set remote"
  then show "\<exists>out. RandomTopology_SelectPeers Count indices local remote = Inr out
            \<and> int (length out) = min Count (int (length remote))
            \<and> set out \<subseteq> set remote \<and> distinct out \<and> local \<notin> peer_id ` set out"
    by (intro RandomTopology_SelectPeers_sound) blast+
qed

theorem RandomTopology_SelectPeers_subset_witness:
  "is_perm [2, 0, 1] (length [mk_peer ''a'' 1 True, mk_peer ''b'' 2 False, mk_peer ''c'' 3 False])
   \<and> distinct [mk_peer ''a'' 1 True, mk_peer ''b'' 2 False, mk_peer ''c'' 3 False]
   \<and> ''me'' \<notin> peer_id ` set [mk_peer ''a'' 1 True, mk_peer ''b'' 2 False, mk_peer ''c'' 3 False]
   \<and> RandomTopology_SelectPeers 2 [2, 0, 1] ''me''
        [mk_peer ''a'' 1 True, mk_peer ''b'' 2 False, mk_peer ''c'' 3 False]
      = Inr [mk_peer ''c'' 3 False, mk_peer ''a'' 1 True]"
  using RandomTopology_SelectPeers_subset
          [of "[2, 0, 1]" "''me''" "[mk_peer ''a'' 1 True, mk_peer ''b'' 2 False, mk_peer ''c'' 3 False]" 2]
  by (simp add: is_perm_def mk_peer_def peer_id_def RandomTopology_SelectPeers_def in_range_def
        upt_rec)

text \<open>
  The claim C5 as stated, for every remote list, fails on a remote list that holds the
  local node: \<open>local\<close> is not read by the function.
\<close>

theorem RandomTopology_SelectPeers_local_counterexample:
  "RandomTopology_SelectPeers 1 [0] ''me'' [mk_peer ''me'' 1 False] = Inr [mk_peer ''me'' 1 False]
   \<and> peer_id (mk_peer ''me'' 1 False) = ''me''"
  by (simp add: RandomTopology_SelectPeers_def in_range_def mk_peer_def peer_id_def)


section \<open>Properties of the PeerSubscriber\<close>

lemma waitForPeers_cached:
  "peers ps = Some cached \<Longrightarrow> waitForPeers env ps = Some (Inr cached, ps)"
  by (simp add: waitForPeers_def)

lemma waitForPeers_result_cached:
  "waitForPeers env ps = Some (Inr got, ps') \<Longrightarrow> peers ps' = Some got"
  by (auto simp: waitForPeers_def Let_def split: option.splits if_splits prod.splits)

text \<open>
  After a call that returned a list, every later call returns the same list and changes
  nothing; and no call but the first one on a fresh subscriber subscribes.
\<close>

lemma waitForPeers_memoized_after_success:
  "waitForPeers env ps = Some (Inr got, ps') \<Longrightarrow> waitForPeers env' ps' = Some (Inr got, ps')"
  by (rule waitForPeers_cached) (rule waitForPeers_result_cached)

lemma waitForPeers_subscribe_calls:
  "waitForPeers env ps = Some (r, ps') \<Longrightarrow>
   subscribe_calls ps' =
     (if peers ps = None \<and> 0 < containerCount ps then subscribe_calls ps + 1
      else subscribe_calls ps)"
  by (auto simp: waitForPeers_def Let_def split: option.splits if_splits prod.splits)

lemma waitForPeers_second_call_changes_nothing:
  "waitForPeers env ps = Some (r, ps') \<Longrightarrow> 0 \<le> containerCount ps \<Longrightarrow>
   waitForPeers env' ps' = Some (r', ps'') \<Longrightarrow> ps'' = ps'"
  by (auto simp: waitForPeers_def Let_def split: option.splits if_splits prod.splits)

text \<open>
  A first call that ends in an error has already replaced the nil \<^verbatim>\<open>ps.peers\<close>, so the
  second call returns what the failed pass had collected, with a nil error.
\<close>

lemma waitForPeers_error_then_list:
  "peers ps = None \<Longrightarrow> 0 \<le> containerCount ps \<Longrightarrow> waitForPeers env ps = Some (Inl err, ps') \<Longrightarrow>
   \<exists>partial. waitForPeers env' ps' = Some (Inr partial, ps')"
  by (auto simp: waitForPeers_def Let_def split: option.splits if_splits prod.splits)

text \<open>
  C1 on the code: a subscriber that expects two registrations receives one and then finds
  the channel closed. The first call returns the error for too few registrations; the
  second call, whatever the sync service does then, returns the one registration with a
  nil error. The two results differ, although \<^verbatim>\<open>client.Subscribe\<close> has been called once.
\<close>

theorem waitForPeers_failed_pass_cached:
  "waitForPeers \<lparr>publish_result = None, subscribe_result = None,
                 events = [Recv (mk_peer ''a'' 1 True), ChanClosed]\<rparr> (NewPeerSubscriber 2)
     = Some (Inl (NotEnoughPeerInfos 2 1),
             \<lparr>peers = Some [mk_peer ''a'' 1 True], containerCount = 2, subscribe_calls = 1\<rparr>)
   \<and> waitForPeers env
        \<lparr>peers = Some [mk_peer ''a'' 1 True], containerCount = 2, subscribe_calls = 1\<rparr>
     = Some (Inr [mk_peer ''a'' 1 True],
             \<lparr>peers = Some [mk_peer ''a'' 1 True], containerCount = 2, subscribe_calls = 1\<rparr>)"
  by (simp add: waitForPeers_def NewPeerSubscriber_def)

lemma wait_loop_ctx_done:
  "i + int (length rs) < cc \<Longrightarrow>
   wait_loop cc i ps (map Recv rs @ CtxDone e # rest) = Some (ps @ rs, Some (ContextErr e))"
  by (induction rs arbitrary: i ps) auto

lemma wait_loop_closed:
  "i + int (length rs) < cc \<Longrightarrow>
   wait_loop cc i ps (map Recv rs @ ChanClosed # rest)
     = Some (ps @ rs, Some (NotEnoughPeerInfos cc (length (ps @ rs))))"
  by (induction rs arbitrary: i ps) auto

text \<open>
  C2: a collection pass on a fresh subscriber has subscribed and received the
  registrations \<open>rs\<close>, fewer than expected. If the \<^verbatim>\<open>select\<close> then takes \<^verbatim>\<open>ctx.Done()\<close>, the call
  returns the error of the context; if it finds the channel closed, the call returns the
  error for too few registrations, with the expected number and the number received. The
  two errors are different values.
\<close>

theorem waitForPeers_cancelled_or_closed:
  assumes "peers ps = None" "subscribe_result env = None" "int (length rs) < containerCount ps"
  shows "(events env = map Recv rs @ CtxDone e # rest \<longrightarrow>
            waitForPeers env ps
              = Some (Inl (ContextErr e), ps\<lparr>peers := Some rs, subscribe_calls := subscribe_calls ps + 1\<rparr>))
       \<and> (events env = map Recv rs @ ChanClosed # rest \<longrightarrow>
            waitForPeers env ps
              = Some (Inl (NotEnoughPeerInfos (containerCount ps) (length rs)),
                      ps\<lparr>peers := Some rs, subscribe_calls := subscribe_calls ps + 1\<rparr>))
       \<and> ContextErr e \<noteq> NotEnoughPeerInfos (containerCount ps) (length rs)"
  using assms wait_loop_ctx_done [of 0 rs "containerCount ps" "[]" e rest]
    wait_loop_closed [of 0 rs "containerCount ps" "[]" rest]
  by (auto simp: waitForPeers_def Let_def)

theorem waitForPeers_cancelled_or_closed_witness:
  "waitForPeers \<lparr>publish_result = None, subscribe_result = None,
                 events = [Recv (mk_peer ''a'' 1 True), CtxDone DeadlineExceeded]\<rparr>
     (NewPeerSubscriber 3)
     = Some (Inl (ContextErr DeadlineExceeded),
             \<lparr>peers = Some [mk_peer ''a'' 1 True], containerCount = 3, subscribe_calls = 1\<rparr>)
   \<and> waitForPeers \<lparr>publish_result = None, subscribe_result = None,
                   events = [Recv (mk_peer ''a'' 1 True), ChanClosed]\<rparr>
     (NewPeerSubscriber 3)
     = Some (Inl (NotEnoughPeerInfos 3 1),
             \<lparr>peers = Some [mk_peer ''a'' 1 True], containerCount = 3, subscribe_calls = 1\<rparr>)"
  using waitForPeers_cancelled_or_closed
          [of "NewPeerSubscriber 3"
              "\<lparr>publish_result = None, subscribe_result = None,
                events = [Recv (mk_peer ''a'' 1 True), CtxDone DeadlineExceeded]\<rparr>"
              "[mk_peer ''a'' 1 True]" DeadlineExceeded "[]"]
        waitForPeers_cancelled_or_closed
          [of "NewPeerSubscriber 3"
              "\<lparr>publish_result = None, subscribe_result = None,
                events = [Recv (mk_peer ''a'' 1 True), ChanClosed]\<rparr>"
              "[mk_peer ''a'' 1 True]" DeadlineExceeded "[]"]
  by (simp add: NewPeerSubscriber_def)

section \<open>Properties of registerAndWait\<close>

lemma wait_loop_complete:
  "wait_loop cc i ps evs = Some (got, None) \<Longrightarrow> i \<le> cc \<Longrightarrow>
   int (length got) = int (length ps) + cc - i"
  by (induction evs arbitrary: i ps) (auto split: if_splits chan_event.splits)

lemma waitForPeers_fresh_length:
  "waitForPeers env ps = Some (Inr got, ps') \<Longrightarrow> peers ps = None \<Longrightarrow>
   int (length got) = containerCount ps"
  by (auto simp: waitForPeers_def Let_def dest!: wait_loop_complete
      split: option.splits if_splits prod.splits)

lemma length_filter_distinct_one:
  "distinct (map f xs) \<Longrightarrow> a \<in> f ` set xs \<Longrightarrow> length (filter (\<lambda>x. f x \<noteq> a) xs) = length xs - 1"
proof (induction xs)
  case Nil
  then show ?case by simp
next
  case (Cons x xs)
  show ?case
  proof (cases "f x = a")
    case True
    with Cons.prems have "\<forall>y \<in> set xs. f y \<noteq> a" by (auto simp: image_iff)
    then have "filter (\<lambda>x. f x \<noteq> a) xs = xs" by (simp add: filter_id_conv)
    with True show ?thesis by simp
  next
    case False
    with Cons.prems have "a \<in> f ` set xs" "distinct (map f xs)" by auto
    with Cons.IH have "length (filter (\<lambda>x. f x \<noteq> a) xs) = length xs - 1" by simp
    moreover from \<open>a \<in> f ` set xs\<close> have "xs \<noteq> []" by auto
    ultimately show ?thesis using False by (cases xs) auto
  qed
qed

text \<open>
  C8: when \<^verbatim>\<open>registerAndWait\<close> returns a nil error, the subscriber holds the registrations
  \<open>received\<close> that the collection returned, and \<^verbatim>\<open>allPeers\<close> is exactly the received
  registrations of another identity than the host's, in the order received; the host is
  not among them. A collection pass of the call itself received as many registrations as
  \<^verbatim>\<open>containerCount\<close>; and when the received identities are pairwise different and the host's
  is one of them, \<^verbatim>\<open>allPeers\<close> has one entry fewer than were received.
\<close>

theorem registerAndWait_filters_self:
  assumes "registerAndWait env s = Some (None, s')"
  shows "\<exists>received. peers (peerSubscriber s') = Some received
     \<and> allPeers s' = filter (\<lambda>p. peer_id p \<noteq> host_ID (h s)) received
     \<and> host_ID (h s) \<notin> peer_id ` set (allPeers s')
     \<and> (peers (peerSubscriber s) = None \<longrightarrow>
          int (length received) = containerCount (peerSubscriber s))
     \<and> (distinct (map peer_id received) \<and> host_ID (h s) \<in> peer_id ` set received \<longrightarrow>
          length (allPeers s') = length received - 1)"
proof -
  from assms obtain received ps' where
    w: "waitForPeers env (peerSubscriber s) = Some (Inr received, ps')"
    and s': "s' = s\<lparr>peerSubscriber := ps',
                    allPeers := filter (\<lambda>p. ID (Info p) \<noteq> ID (InfoFromHost (h s))) received\<rparr>"
    by (auto simp: registerAndWait_def Let_def split: option.splits sum.splits if_splits prod.splits)
  have c: "peers (peerSubscriber s') = Some received"
    using waitForPeers_result_cached [OF w] s' by simp
  have a: "allPeers s' = filter (\<lambda>p. peer_id p \<noteq> host_ID (h s)) received"
    using s' by (simp add: peer_id_def InfoFromHost_def)
  have n: "host_ID (h s) \<notin> peer_id ` set (allPeers s')"
    unfolding a by auto
  have l: "peers (peerSubscriber s) = None \<longrightarrow>
          int (length received) = containerCount (peerSubscriber s)"
    using waitForPeers_fresh_length [OF w] by simp
  have d: "distinct (map peer_id received) \<and> host_ID (h s) \<in> peer_id ` set received \<longrightarrow>
          length (allPeers s') = length received - 1"
    unfolding a using length_filter_distinct_one [of peer_id received "host_ID (h s)"] by blast
  show ?thesis
    by (rule exI [of _ received]) (intro conjI c a n l d)
qed


theorem registerAndWait_filters_self_witness:
  "registerAndWait
     \<lparr>publish_result = None, subscribe_result = None,
      events = [Recv (mk_peer ''n2'' 2 False), Recv (mk_peer ''n1'' 1 True),
                Recv (mk_peer ''n3'' 3 False), Recv (mk_peer ''n5'' 5 False),
                Recv (mk_peer ''n4'' 4 False)]\<rparr>
     (NewSyncDiscovery \<lparr>host_ID = ''n3'', host_Addrs = [], network_is_Swarm = True\<rparr> 3
        (NewPeerSubscriber 5) (RandomTopology 2))
   = Some (None,
       (NewSyncDiscovery \<lparr>host_ID = ''n3'', host_Addrs = [], network_is_Swarm = True\<rparr> 3
          (NewPeerSubscriber 5) (RandomTopology 2))
       \<lparr>peerSubscriber :=
          \<lparr>peers = Some [mk_peer ''n2'' 2 False, mk_peer ''n1'' 1 True, mk_peer ''n3'' 3 False,
                          mk_peer ''n5'' 5 False, mk_peer ''n4'' 4 False],
           containerCount = 5, subscribe_calls = 1\<rparr>,
        allPeers := [mk_peer ''n2'' 2 False, mk_peer ''n1'' 1 True, mk_peer ''n5'' 5 False,
                     mk_peer ''n4'' 4 False]\<rparr>)
   \<and> length [mk_peer ''n2'' 2 False, mk_peer ''n1'' 1 True, mk_peer ''n5'' 5 False,
              mk_peer ''n4'' 4 False] = 5 - 1"
proof -
  have run: "registerAndWait
     \<lparr>publish_result = None, subscribe_result = None,
      events = [Recv (mk_peer ''n2'' 2 False), Recv (mk_peer ''n1'' 1 True),
                Recv (mk_peer ''n3'' 3 False), Recv (mk_peer ''n5'' 5 False),
                Recv (mk_peer ''n4'' 4 False)]\<rparr>
     (NewSyncDiscovery \<lparr>host_ID = ''n3'', host_Addrs = [], network_is_Swarm = True\<rparr> 3
        (NewPeerSubscriber 5) (RandomTopology 2))
   = Some (None,
       (NewSyncDiscovery \<lparr>host_ID = ''n3'', host_Addrs = [], network_is_Swarm = True\<rparr> 3
          (NewPeerSubscriber 5) (RandomTopology 2))
       \<lparr>peerSubscriber :=
          \<lparr>peers = Some [mk_peer ''n2'' 2 False, mk_peer ''n1'' 1 True, mk_peer ''n3'' 3 False,
                          mk_peer ''n5'' 5 False, mk_peer ''n4'' 4 False],
           containerCount = 5, subscribe_calls = 1\<rparr>,
        allPeers := [mk_peer ''n2'' 2 False, mk_peer ''n1'' 1 True, mk_peer ''n5'' 5 False,
                     mk_peer ''n4'' 4 False]\<rparr>)"
    by (simp add: registerAndWait_def register_def waitForPeers_def NewSyncDiscovery_def
          NewPeerSubscriber_def InfoFromHost_def mk_peer_def)
  show ?thesis
    using registerAndWait_filters_self [OF run]
    by - (rule conjI [OF run], simp add: peer_id_def mk_peer_def NewSyncDiscovery_def)
qed


section \<open>Properties of the connection coordinator\<close>

subsection \<open>connectWithRetry\<close>











subsection \<open>Dispatching\<close>

lemma connect_loop_invariant:
  "distinct (map peer_id (dispatched s)) \<Longrightarrow> peer_id ` set (dispatched s) = dom (connected s) \<Longrightarrow>
   distinct (map peer_id (dispatched (connect_loop ps s)))
   \<and> peer_id ` set (dispatched (connect_loop ps s)) = dom (connected (connect_loop ps s))"
proof (induction ps arbitrary: s)
  case Nil
  then show ?case by simp
next
  case (Cons p ps)
  show ?case
  proof (cases "connected s (ID (Info p)) = None")
    case False
    then have "connect_loop (p # ps) s = connect_loop ps s" by auto
    with Cons.IH [OF Cons.prems] show ?thesis by simp
  next
    case True
    let ?s = "s\<lparr>connected := (connected s)(ID (Info p) \<mapsto> p), dispatched := dispatched s @ [p]\<rparr>"
    from True Cons.prems(2) have "peer_id p \<notin> peer_id ` set (dispatched s)"
      by (auto simp: peer_id_def dom_def)
    with Cons.prems(1) have d: "distinct (map peer_id (dispatched ?s))" by simp
    have e: "peer_id ` set (dispatched ?s) = dom (connected ?s)"
      using Cons.prems(2) by (auto simp: peer_id_def)
    from Cons.IH [OF d e] True show ?thesis by simp
  qed
qed

lemma run_call_is_connect_loop:
  "run_call c s = Inr s' \<Longrightarrow> \<exists>selected. s' = connect_loop selected s"
  by (cases c)
     (auto simp: ConnectTopology_def ConnectingToPeers_def
        split: option.splits sum.splits if_splits)

lemma run_call_invariant:
  assumes "distinct (map peer_id (dispatched s))" "peer_id ` set (dispatched s) = dom (connected s)"
    and "run_call c s = Inr s'"
  shows "distinct (map peer_id (dispatched s')) \<and> peer_id ` set (dispatched s') = dom (connected s')"
proof -
  from run_call_is_connect_loop [OF assms(3)] obtain selected where
    "s' = connect_loop selected s" ..
  with connect_loop_invariant [OF assms(1,2), of selected] show ?thesis by simp
qed

lemma run_calls_invariant:
  "distinct (map peer_id (dispatched s)) \<Longrightarrow> peer_id ` set (dispatched s) = dom (connected s) \<Longrightarrow>
   distinct (map peer_id (dispatched (run_calls cs s)))
   \<and> peer_id ` set (dispatched (run_calls cs s)) = dom (connected (run_calls cs s))"
proof (induction cs arbitrary: s)
  case Nil
  then show ?case by simp
next
  case (Cons c cs)
  show ?case
  proof (cases "run_call c s")
    case (Inl e)
    with Cons show ?thesis by simp
  next
    case (Inr s')
    from run_call_invariant [OF Cons.prems Inr] have
      "distinct (map peer_id (dispatched s'))" "peer_id ` set (dispatched s') = dom (connected s')"
      by simp_all
    from Cons.IH [OF this] Inr show ?thesis by simp
  qed
qed

text \<open>
  C4: on a discovery that has connected to nobody yet, after any sequence of calls of
  \<^verbatim>\<open>ConnectTopology\<close> and \<^verbatim>\<open>ConnectingToPeers\<close>, whatever the peer lists and the selections,
  no two dispatched attempts are for the same peer identity, and the identities dispatched
  are exactly the keys of \<open>connected\<close>: the insertion is made when the attempt is
  dispatched. A peer whose identity is in \<open>connected\<close> when the loop reaches it is skipped.
\<close>

theorem connect_dispatches_each_peer_once:
  assumes "connected s = Map.empty" "dispatched s = []"
  shows "distinct (map peer_id (dispatched (run_calls cs s)))
       \<and> peer_id ` set (dispatched (run_calls cs s)) = dom (connected (run_calls cs s))
       \<and> (connected s0 (peer_id p) \<noteq> None \<longrightarrow> connect_loop (p # ps) s0 = connect_loop ps s0)"
  using run_calls_invariant [of s cs] assms by (simp add: peer_id_def)
theorem connect_dispatches_each_peer_once_witness:
  "dispatched
     (run_calls
        [CallConnectTopology None [2, 0, 1],
         CallConnectingToPeers [mk_peer ''a'' 1 True, mk_peer ''b'' 2 False, mk_peer ''a'' 1 True],
         CallConnectTopology (Some Canceled) [0, 1, 2],
         CallConnectingToPeers []]
        ((NewSyncDiscovery \<lparr>host_ID = ''me'', host_Addrs = [], network_is_Swarm = True\<rparr> 4
            (NewPeerSubscriber 4) (RandomTopology 2))
         \<lparr>allPeers := [mk_peer ''a'' 1 True, mk_peer ''b'' 2 False, mk_peer ''c'' 3 False]\<rparr>))
     = [mk_peer ''c'' 3 False, mk_peer ''a'' 1 True, mk_peer ''b'' 2 False]
   \<and> distinct (map peer_id (dispatched
     (run_calls
        [CallConnectTopology None [2, 0, 1],
         CallConnectingToPeers [mk_peer ''a'' 1 True, mk_peer ''b'' 2 False, mk_peer ''a'' 1 True],
         CallConnectTopology (Some Canceled) [0, 1, 2],
         CallConnectingToPeers []]
        ((NewSyncDiscovery \<lparr>host_ID = ''me'', host_Addrs = [], network_is_Swarm = True\<rparr> 4
            (NewPeerSubscriber 4) (RandomTopology 2))
         \<lparr>allPeers := [mk_peer ''a'' 1 True, mk_peer ''b'' 2 False, mk_peer ''c'' 3 False]\<rparr>))))"
  using connect_dispatches_each_peer_once
          [of "(NewSyncDiscovery \<lparr>host_ID = ''me'', host_Addrs = [], network_is_Swarm = True\<rparr> 4
                  (NewPeerSubscriber 4) (RandomTopology 2))
               \<lparr>allPeers := [mk_peer ''a'' 1 True, mk_peer ''b'' 2 False, mk_peer ''c'' 3 False]\<rparr>"
              "[CallConnectTopology None [2, 0, 1],
                CallConnectingToPeers [mk_peer ''a'' 1 True, mk_peer ''b'' 2 False, mk_peer ''a'' 1 True],
                CallConnectTopology (Some Canceled) [0, 1, 2],
                CallConnectingToPeers []]"]
  by (simp add: NewSyncDiscovery_def ConnectTopology_def ConnectingToPeers_def
        RandomTopology_SelectPeers_def in_range_def mk_peer_def upt_rec)

text \<open>
  C9: \<^verbatim>\<open>ConnectingToPeers\<close> on an empty list panics, and so does \<^verbatim>\<open>ConnectTopology\<close> when the
  topology selects no peer (unless the context is done before the selection, where the
  call returns the error of the context). In both cases the call ends before the loop:
  nothing is inserted into \<open>connected\<close> and no attempt is dispatched.
\<close>

theorem ConnectTopology_zero_peers:
  "ConnectingToPeers [] s = Inl PanicZeroPeers
   \<and> (SelectPeers (topology s) indices (host_ID (h s)) (allPeers s) = Inr [] \<longrightarrow>
        ConnectTopology ctx_done indices s
          = Inl (case ctx_done of None \<Rightarrow> PanicZeroPeers | Some e \<Rightarrow> ContextErr e))
   \<and> run_calls [CallConnectingToPeers []] s = s
   \<and> (SelectPeers (topology s) indices (host_ID (h s)) (allPeers s) = Inr [] \<longrightarrow>
        run_calls [CallConnectTopology ctx_done indices] s = s)"
  by (auto simp: ConnectingToPeers_def ConnectTopology_def split: option.splits)
theorem ConnectTopology_zero_peers_witness:
  "SelectPeers (RandomTopology 2) [] ''me'' [] = Inr []
   \<and> ConnectTopology None []
        (NewSyncDiscovery \<lparr>host_ID = ''me'', host_Addrs = [], network_is_Swarm = True\<rparr> 4
           (NewPeerSubscriber 4) (RandomTopology 2))
      = Inl PanicZeroPeers"
  using ConnectTopology_zero_peers
          [of "NewSyncDiscovery \<lparr>host_ID = ''me'', host_Addrs = [], network_is_Swarm = True\<rparr> 4
                 (NewPeerSubscriber 4) (RandomTopology 2)" "[]" None]
  by (simp add: NewSyncDiscovery_def RandomTopology_SelectPeers_def)

end
